theory Spec2Isabelle
  imports Main
begin

section \<open>The ArgoCD backend router (service/router.ts)\<close>

text \<open>
  A shallow embedding of the request handlers that \<open>createRouter\<close> registers. The
  ArgoCD client (\<open>ArgoService\<close>), the configuration and the delay primitive live outside
  router.ts; the client is a record of result functions, so every theorem below holds
  for every behaviour of the client. A promise that rejects is the left injection of a
  sum, a value that resolves is the right one.
\<close>

subsection \<open>JavaScript values\<close>

text \<open>
  The values the handlers inspect without a static type: fields of a caught error
  (\<open>e: any\<close>), fields of the request body, the value \<open>deleteApp\<close> resolves to.
  Numbers are integers here.
\<close>

datatype jsval = JUndefined | JNull | JBool bool | JNum int | JStr string

text \<open>Truthiness, as used by \<open>!x\<close> and \<open>x || y\<close>.\<close>

fun truthy :: "jsval \<Rightarrow> bool" where
  "truthy JUndefined = False"
| "truthy JNull = False"
| "truthy (JBool b) = b"
| "truthy (JNum n) = (n \<noteq> 0)"
| "truthy (JStr s) = (s \<noteq> [])"

definition or_else :: "jsval \<Rightarrow> jsval \<Rightarrow> jsval" where
  "or_else a b = (if truthy a then a else b)"

text \<open>
  A caught error \<open>e\<close>. The handlers read \<open>e.status\<close> and \<open>e.message\<close> only; an
  absent field is \<open>JUndefined\<close>. Thrown values are objects.
\<close>

record thrown =
  e_status :: jsval
  e_message :: jsval

text \<open>
  What \<open>getArgoAppData\<close> resolves to: an object, known by its own keys, or a primitive.
  \<open>'metadata' in argoApp\<close> raises a TypeError on a primitive: \<open>in_op\<close> is \<open>None\<close> there.
\<close>

datatype app_data = Obj "string list" | Prim jsval

fun in_op :: "string \<Rightarrow> app_data \<Rightarrow> bool option" where
  "in_op k (Obj keys) = Some (k \<in> set keys)"
| "in_op k (Prim v) = None"

subsection \<open>Data model\<close>

text \<open>The type \<open>Response\<close> of router.ts, lines 13 to 16.\<close>

record Response =
  status :: string
  message :: string

text \<open>An element of \<open>argoInstanceArray\<close>, lines 37 to 43.\<close>

record argo_instance =
  name :: string
  url :: string
  token :: "string option"
  username :: "string option"
  password :: "string option"

text \<open>The query descriptor passed to \<open>getArgoAppData\<close>: \<open>{name}\<close> or \<open>{selector}\<close>.\<close>

datatype app_ref = ByName string | BySelector string

text \<open>The part of the configuration the router reads.\<close>

record locator =
  locator_type :: string
  instances :: "argo_instance list"

record Config =
  argocd_waitCycles :: "int option"
  argocd_appLocatorMethods :: "locator list"

text \<open>Lines 27 and 28: \<open>config.getOptionalNumber('argocd.waitCycles') ?? 5\<close>.\<close>

definition argoWaitCycles :: "Config \<Rightarrow> int" where
  "argoWaitCycles config =
     (case argocd_waitCycles config of None \<Rightarrow> 5 | Some n \<Rightarrow> n)"

text \<open>Lines 30 to 43: the instances of the locator methods of type \<open>config\<close>, in order.\<close>

definition argoInstanceArray :: "Config \<Rightarrow> argo_instance list" where
  "argoInstanceArray config =
     foldl (\<lambda>acc argoApp. acc @ instances argoApp) []
       (filter (\<lambda>element. locator_type element = ''config'')
          (argocd_appLocatorMethods config))"

text \<open>
  The external client. \<open>getArgoAppData\<close> takes, before its arguments, the number of
  fetches made earlier in the same request, so that successive polls may differ.
  Argument order: \<open>deleteApp baseUrl argoApplicationName argoToken\<close>,
  \<open>getArgoAppData n baseUrl instanceName ref token\<close>,
  \<open>deleteProject baseUrl argoProjectName argoToken\<close>,
  \<open>createArgoProject baseUrl argoToken projectName namespace sourceRepo\<close>,
  \<open>createArgoApplication baseUrl argoToken projectName appName namespace sourceRepo
  sourcePath labelValue\<close>.
\<close>

record ArgoService =
  getArgoToken :: "argo_instance \<Rightarrow> thrown + string"
  deleteApp :: "string \<Rightarrow> string \<Rightarrow> string \<Rightarrow> thrown + jsval"
  getArgoAppData :: "nat \<Rightarrow> string \<Rightarrow> string \<Rightarrow> app_ref \<Rightarrow> string \<Rightarrow> thrown + app_data"
  deleteProject :: "string \<Rightarrow> string \<Rightarrow> string \<Rightarrow> thrown + unit"
  createArgoProject :: "string \<Rightarrow> string \<Rightarrow> jsval \<Rightarrow> jsval \<Rightarrow> jsval \<Rightarrow> thrown + unit"
  createArgoApplication ::
    "string \<Rightarrow> string \<Rightarrow> jsval \<Rightarrow> jsval \<Rightarrow> jsval \<Rightarrow> jsval \<Rightarrow> jsval \<Rightarrow> jsval \<Rightarrow> thrown + unit"

text \<open>The calls a handler makes, in order, with their arguments.\<close>

datatype call =
    Call_getArgoToken argo_instance
  | Call_deleteApp string string string
  | Call_getArgoAppData string string app_ref string
  | Call_timer nat
  | Call_deleteProject string string string
  | Call_createArgoProject string string jsval jsval jsval
  | Call_createArgoApplication string string jsval jsval jsval jsval jsval jsval

fun is_getArgoAppData :: "call \<Rightarrow> bool" where
  "is_getArgoAppData (Call_getArgoAppData u n r t) = True"
| "is_getArgoAppData c = False"

fun is_deleteProject :: "call \<Rightarrow> bool" where
  "is_deleteProject (Call_deleteProject u p t) = True"
| "is_deleteProject c = False"

fun is_createArgoApplication :: "call \<Rightarrow> bool" where
  "is_createArgoApplication (Call_createArgoApplication u t p a n r sp l) = True"
| "is_createArgoApplication c = False"

text \<open>
  What a handler answers: a body sent with an HTTP status (200 when the handler sets
  none), or an error it does not catch, which the router hands to \<open>errorHandler\<close>.
  \<open>InvalidStatus c\<close> is such an error as well: the HTTP layer refused to write a
  response with the status \<open>c\<close> and threw. \<open>StatusTextBody n\<close> is the status text of the
  code \<open>n\<close>, empty when the code has none.
\<close>

datatype body =
    ErrorBody jsval jsval
  | DataBody app_data
  | CreateBody jsval jsval jsval
  | DeleteBody Response Response
  | StatusTextBody int

datatype outcome = Sent jsval body | Unhandled thrown | InvalidStatus jsval

text \<open>
  The HTTP layer under the handlers (express 4 on Node's http module) is outside
  router.ts. Where a handler passes a computed status, the layer is a parameter
  \<open>accepts\<close>: \<open>accepts c\<close> says that a response with the status \<open>c\<close> can be written.
  The numbers 200 and 500, which the handlers also pass as literals, are written by
  every layer. When a status cannot be written, \<open>response.status(c).send(body)\<close> throws
  while writing the head and the request leaves through \<open>errorHandler\<close>.
\<close>

definition writes :: "(jsval \<Rightarrow> bool) \<Rightarrow> jsval \<Rightarrow> bool" where
  "writes accepts c = (c = JNum 200 \<or> c = JNum 500 \<or> accepts c)"

definition status_send :: "(jsval \<Rightarrow> bool) \<Rightarrow> jsval \<Rightarrow> body \<Rightarrow> outcome" where
  "status_send accepts c b = (if writes accepts c then Sent c b else InvalidStatus c)"

text \<open>
  \<open>response.send(resp)\<close> with no status set, lines 76 and 112. Express 4 takes a
  number passed alone as the status code and sends its status text; every other value
  is the body of a response with status 200.
\<close>

definition send_data :: "(jsval \<Rightarrow> bool) \<Rightarrow> app_data \<Rightarrow> outcome" where
  "send_data accepts resp =
     (case resp of
        Prim (JNum n) \<Rightarrow> status_send accepts (JNum n) (StatusTextBody n)
      | _ \<Rightarrow> Sent (JNum 200) (DataBody resp))"

definition instanceNotFound :: outcome where
  "instanceNotFound =
     Sent (JNum 500)
       (ErrorBody (JStr ''failed'')
          (JStr ''cannot find an argo instance to match this cluster''))"

subsection \<open>Token resolution\<close>

text \<open>
  Lines 64 to 69, 100 to 105, 132 to 144 and 213 to 218 all read
  \<open>if (!matchedArgoInstance.token) token = await argoSvc.getArgoToken(...) else
  token = matchedArgoInstance.token\<close>. The result comes with the calls made.
\<close>

definition resolveToken :: "ArgoService \<Rightarrow> argo_instance \<Rightarrow> (thrown + string) \<times> call list" where
  "resolveToken argoSvc matchedArgoInstance =
     (case token matchedArgoInstance of
        None \<Rightarrow> (getArgoToken argoSvc matchedArgoInstance, [Call_getArgoToken matchedArgoInstance])
      | Some t \<Rightarrow>
          if t = [] then
            (getArgoToken argoSvc matchedArgoInstance, [Call_getArgoToken matchedArgoInstance])
          else (Inr t, []))"

subsection \<open>The instance-scoped fetches\<close>

text \<open>Lines 48 to 78 (\<open>ref = ByName argoAppName\<close>) and 83 to 114 (\<open>ref = BySelector argoAppSelector\<close>).\<close>

definition get_applications ::
  "Config \<Rightarrow> (jsval \<Rightarrow> bool) \<Rightarrow> ArgoService \<Rightarrow> string \<Rightarrow> app_ref \<Rightarrow> outcome \<times> call list" where
  "get_applications config accepts argoSvc argoInstanceName ref =
     (case find (\<lambda>argoInstance. name argoInstance = argoInstanceName) (argoInstanceArray config) of
        None \<Rightarrow> (instanceNotFound, [])
      | Some matchedArgoInstance \<Rightarrow>
          (case resolveToken argoSvc matchedArgoInstance of
             (Inl e, cs) \<Rightarrow> (Unhandled e, cs)
           | (Inr tok, cs) \<Rightarrow>
               (let cs' = cs @ [Call_getArgoAppData (url matchedArgoInstance)
                                  (name matchedArgoInstance) ref tok] in
                case getArgoAppData argoSvc 0 (url matchedArgoInstance)
                       (name matchedArgoInstance) ref tok of
                  Inl e \<Rightarrow> (Unhandled e, cs')
                | Inr resp \<Rightarrow> (send_data accepts resp, cs'))))"

definition get_applications_name ::
  "Config \<Rightarrow> (jsval \<Rightarrow> bool) \<Rightarrow> ArgoService \<Rightarrow> string \<Rightarrow> string \<Rightarrow> outcome \<times> call list" where
  "get_applications_name config accepts argoSvc argoInstanceName argoAppName =
     get_applications config accepts argoSvc argoInstanceName (ByName argoAppName)"

definition get_applications_selector ::
  "Config \<Rightarrow> (jsval \<Rightarrow> bool) \<Rightarrow> ArgoService \<Rightarrow> string \<Rightarrow> string \<Rightarrow> outcome \<times> call list" where
  "get_applications_selector config accepts argoSvc argoInstanceName argoAppSelector =
     get_applications config accepts argoSvc argoInstanceName (BySelector argoAppSelector)"

subsection \<open>POST /createArgo\<close>

record create_body =
  clusterName :: jsval
  namespace :: jsval
  projectName :: jsval
  appName :: jsval
  labelValue :: jsval
  sourceRepo :: jsval
  sourcePath :: jsval

text \<open>
  Lines 115 to 185. \<open>request.body.clusterName\<close> is compared with \<open>===\<close>. The two
  \<open>catch\<close> blocks that answer with \<open>e.status || 500\<close> pass a computed status.
\<close>

definition createArgo ::
  "Config \<Rightarrow> (jsval \<Rightarrow> bool) \<Rightarrow> ArgoService \<Rightarrow> create_body \<Rightarrow> outcome \<times> call list" where
  "createArgo config accepts argoSvc b =
     (case find (\<lambda>argoInstance. JStr (name argoInstance) = clusterName b) (argoInstanceArray config) of
        None \<Rightarrow> (instanceNotFound, [])
      | Some matchedArgoInstance \<Rightarrow>
          (case resolveToken argoSvc matchedArgoInstance of
             (Inl e, cs) \<Rightarrow>
               (status_send accepts (or_else (e_status e) (JNum 500))
                  (ErrorBody (e_status e) (e_message e)), cs)
           | (Inr tok, cs) \<Rightarrow>
               (let cs1 = cs @ [Call_createArgoProject (url matchedArgoInstance) tok
                                  (projectName b) (namespace b) (sourceRepo b)] in
                case createArgoProject argoSvc (url matchedArgoInstance) tok
                       (projectName b) (namespace b) (sourceRepo b) of
                  Inl e \<Rightarrow>
                    (status_send accepts (or_else (e_status e) (JNum 500))
                       (ErrorBody (e_status e)
                          (or_else (e_message e) (JStr ''Failed to create argo project''))), cs1)
                | Inr u \<Rightarrow>
                    (let cs2 = cs1 @ [Call_createArgoApplication (url matchedArgoInstance) tok
                                        (projectName b) (appName b) (namespace b) (sourceRepo b)
                                        (sourcePath b) (labelValue b)] in
                     case createArgoApplication argoSvc (url matchedArgoInstance) tok
                            (projectName b) (appName b) (namespace b) (sourceRepo b)
                            (sourcePath b) (labelValue b) of
                       Inr u' \<Rightarrow>
                         (Sent (JNum 200) (CreateBody (projectName b) (appName b) (namespace b)), cs2)
                     | Inl e \<Rightarrow>
                         (Sent (JNum 500)
                            (ErrorBody (JNum 500)
                               (or_else (e_message e) (JStr ''Failed to create argo app''))), cs2)))))"

subsection \<open>DELETE /argoInstance/:argoInstanceName/applications/:argoAppName\<close>

text \<open>The local variables of the handler (lines 219 to 228 and 248), and the calls made so far.\<close>

record del_state =
  argoDeleteProjectResp :: Response
  argoDeleteAppResp :: Response
  countinueToDeleteProject :: bool
  isAppexist :: bool
  isAppPendingDelete :: bool
  calls :: "call list"

definition note_call :: "call \<Rightarrow> del_state \<Rightarrow> del_state" where
  "note_call c s = s\<lparr>calls := calls s @ [c]\<rparr>"

definition init_state :: "call list \<Rightarrow> del_state" where
  "init_state cs =
     \<lparr>argoDeleteProjectResp = \<lparr>status = [], message = []\<rparr>,
      argoDeleteAppResp = \<lparr>status = [], message = []\<rparr>,
      countinueToDeleteProject = True,
      isAppexist = True,
      isAppPendingDelete = False,
      calls = cs\<rparr>"

text \<open>Lines 229 to 247: the call of \<open>deleteApp\<close> with its \<open>catch\<close>.\<close>

definition deleteAppStep :: "ArgoService \<Rightarrow> argo_instance \<Rightarrow> string \<Rightarrow> string \<Rightarrow> del_state \<Rightarrow> del_state" where
  "deleteAppStep argoSvc matchedArgoInstance argoAppName tok s0 =
     (let s = note_call (Call_deleteApp (url matchedArgoInstance) argoAppName tok) s0 in
      case deleteApp argoSvc (url matchedArgoInstance) argoAppName tok of
        Inr deleteAppResp \<Rightarrow>
          if deleteAppResp = JBool False then
            s\<lparr>countinueToDeleteProject := False,
              argoDeleteAppResp := \<lparr>status = ''failed'', message = ''error with deleteing argo app''\<rparr>\<rparr>
          else s
      | Inl e \<Rightarrow>
          (case e_message e of
             JStr m \<Rightarrow>
               s\<lparr>isAppexist := False,
                 countinueToDeleteProject := True,
                 argoDeleteAppResp := \<lparr>status = ''failed'', message = m\<rparr>\<rparr>
           | _ \<Rightarrow> s))"

text \<open>Lines 265 to 271: the \<open>catch\<close> of the polling loop, before its \<open>continue\<close>.\<close>

definition poll_catch :: "int \<Rightarrow> nat \<Rightarrow> del_state \<Rightarrow> del_state" where
  "poll_catch waitCycles attempts s =
     (if int attempts = waitCycles then
        s\<lparr>argoDeleteAppResp := \<lparr>status = ''failed'', message = ''error getting argo app data''\<rparr>\<rparr>
      else s)"

text \<open>
  Lines 250 to 272: the polling loop, from the value \<open>attempts\<close> of its counter. The
  counter starts at 0 and grows by one, so it is also the number of earlier fetches.
  \<open>timer(5000)\<close> is a delay that resolves; it is recorded among the calls.
\<close>

function poll_loop ::
  "int \<Rightarrow> ArgoService \<Rightarrow> argo_instance \<Rightarrow> string \<Rightarrow> string \<Rightarrow> nat \<Rightarrow> del_state \<Rightarrow> del_state" where
  "poll_loop waitCycles argoSvc matchedArgoInstance argoAppName tok attempts s =
     (if int attempts < waitCycles then
        (let s1 = note_call (Call_getArgoAppData (url matchedArgoInstance) (name matchedArgoInstance)
                         (ByName argoAppName) tok) s in
         case getArgoAppData argoSvc attempts (url matchedArgoInstance)
                (name matchedArgoInstance) (ByName argoAppName) tok of
           Inl e \<Rightarrow>
             poll_loop waitCycles argoSvc matchedArgoInstance argoAppName tok (Suc attempts)
               (poll_catch waitCycles attempts s1)
         | Inr argoApp \<Rightarrow>
             (case in_op ''metadata'' argoApp of
                None \<Rightarrow>
                  poll_loop waitCycles argoSvc matchedArgoInstance argoAppName tok (Suc attempts)
                    (poll_catch waitCycles attempts s1)
              | Some pending \<Rightarrow>
                  if \<not> pending then
                    s1\<lparr>isAppPendingDelete := pending,
                       argoDeleteAppResp :=
                         \<lparr>status = ''success'', message = ''application is deleted successfully''\<rparr>\<rparr>
                  else
                    poll_loop waitCycles argoSvc matchedArgoInstance argoAppName tok (Suc attempts)
                      (note_call (Call_timer 5000) (s1\<lparr>isAppPendingDelete := pending\<rparr>))))
      else s)"
  by pat_completeness auto
termination
  by (relation "measure (\<lambda>(w, c, i, a, t, attempts, s). nat (w - int attempts))") auto

text \<open>Lines 274 to 300: the decision on the project, with its \<open>catch\<close>.\<close>

definition projectStep :: "ArgoService \<Rightarrow> argo_instance \<Rightarrow> string \<Rightarrow> string \<Rightarrow> del_state \<Rightarrow> del_state" where
  "projectStep argoSvc matchedArgoInstance argoAppName tok s =
     (if isAppPendingDelete s \<and> isAppexist s then
        s\<lparr>argoDeleteAppResp := \<lparr>status = ''failed'', message = ''application pending delete''\<rparr>,
          argoDeleteProjectResp :=
            \<lparr>status = ''failed'',
             message = ''skipping project deletion due to app deletion pending''\<rparr>\<rparr>
      else if countinueToDeleteProject s then
        (let s1 = note_call (Call_deleteProject (url matchedArgoInstance) argoAppName tok) s in
         case deleteProject argoSvc (url matchedArgoInstance) argoAppName tok of
           Inr u \<Rightarrow>
             s1\<lparr>argoDeleteProjectResp :=
                  \<lparr>status = ''success'', message = ''project is deleted successfully''\<rparr>\<rparr>
         | Inl e \<Rightarrow>
             (case e_message e of
                JStr m \<Rightarrow> s1\<lparr>argoDeleteProjectResp := \<lparr>status = ''failed'', message = m\<rparr>\<rparr>
              | _ \<Rightarrow>
                  s1\<lparr>argoDeleteProjectResp :=
                       \<lparr>status = ''failed'', message = ''error with deleteing argo project''\<rparr>\<rparr>))
      else
        s\<lparr>argoDeleteProjectResp :=
            \<lparr>status = ''failed'',
             message = ''skipping project deletion due to erro deleting argo app''\<rparr>\<rparr>)"

text \<open>Lines 219 to 304: the handler from the resolved instance and token on.\<close>

definition deleteOrchestrator ::
  "int \<Rightarrow> ArgoService \<Rightarrow> argo_instance \<Rightarrow> string \<Rightarrow> string \<Rightarrow> call list \<Rightarrow> del_state" where
  "deleteOrchestrator waitCycles argoSvc matchedArgoInstance argoAppName tok cs =
     (let s1 = deleteAppStep argoSvc matchedArgoInstance argoAppName tok (init_state cs);
          s2 = (if isAppexist s1 then
                  poll_loop waitCycles argoSvc matchedArgoInstance argoAppName tok 0 s1
                else s1)
      in projectStep argoSvc matchedArgoInstance argoAppName tok s2)"

text \<open>Lines 198 to 306: the whole handler.\<close>

definition delete_applications :: "Config \<Rightarrow> ArgoService \<Rightarrow> string \<Rightarrow> string \<Rightarrow> outcome \<times> call list" where
  "delete_applications config argoSvc argoInstanceName argoAppName =
     (case find (\<lambda>argoInstance. name argoInstance = argoInstanceName) (argoInstanceArray config) of
        None \<Rightarrow> (instanceNotFound, [])
      | Some matchedArgoInstance \<Rightarrow>
          (case resolveToken argoSvc matchedArgoInstance of
             (Inl e, cs) \<Rightarrow> (Unhandled e, cs)
           | (Inr tok, cs) \<Rightarrow>
               (let s = deleteOrchestrator (argoWaitCycles config) argoSvc matchedArgoInstance
                          argoAppName tok cs
                in (Sent (JNum 200) (DeleteBody (argoDeleteAppResp s) (argoDeleteProjectResp s)),
                    calls s))))"

subsection \<open>Vocabulary of the properties\<close>

text \<open>The \<open>n\<close>-th poll fetch of a deletion request (counting from 0) and what it shows.\<close>

definition fetch :: "ArgoService \<Rightarrow> argo_instance \<Rightarrow> string \<Rightarrow> string \<Rightarrow> nat \<Rightarrow> thrown + app_data" where
  "fetch argoSvc m argoAppName tok n =
     getArgoAppData argoSvc n (url m) (name m) (ByName argoAppName) tok"

text \<open>The fetch resolves to an object without the key \<open>metadata\<close>: the application is gone.\<close>

definition lacks_metadata :: "thrown + app_data \<Rightarrow> bool" where
  "lacks_metadata r = (case r of Inr (Obj keys) \<Rightarrow> ''metadata'' \<notin> set keys | _ \<Rightarrow> False)"

text \<open>The fetch resolves to an object with the key \<open>metadata\<close>: the application is still there.\<close>

definition contains_metadata :: "thrown + app_data \<Rightarrow> bool" where
  "contains_metadata r = (case r of Inr (Obj keys) \<Rightarrow> ''metadata'' \<in> set keys | _ \<Rightarrow> False)"

text \<open>
  \<open>deleteApp\<close> rejects with an error whose message is a string: the client signals that
  the application does not exist.
\<close>

definition signals_absent :: "thrown + jsval \<Rightarrow> bool" where
  "signals_absent r =
     (case r of Inl e \<Rightarrow> (case e_message e of JStr m \<Rightarrow> True | _ \<Rightarrow> False) | Inr v \<Rightarrow> False)"

fun is_timer :: "call \<Rightarrow> bool" where
  "is_timer (Call_timer d) = True"
| "is_timer c = False"

subsection \<open>Concrete requests\<close>

text \<open>
  One instance \<open>prod\<close> with a static token and the default \<open>waitCycles\<close>, and a client on
  which every call succeeds and the first poll shows the application gone.
\<close>

definition prod :: argo_instance where
  "prod = \<lparr>name = ''prod'', url = ''https://argo.prod'', token = Some ''tok2'',
           username = None, password = None\<rparr>"

definition cfg_prod :: Config where
  "cfg_prod = \<lparr>argocd_waitCycles = None,
               argocd_appLocatorMethods = [\<lparr>locator_type = ''config'', instances = [prod]\<rparr>]\<rparr>"

definition svc_ok :: ArgoService where
  "svc_ok =
     \<lparr>getArgoToken = (\<lambda>i. Inr ''tok1''),
      deleteApp = (\<lambda>u a t. Inr (JBool True)),
      getArgoAppData = (\<lambda>n u i r t. Inr (Obj [])),
      deleteProject = (\<lambda>u p t. Inr ()),
      createArgoProject = (\<lambda>u t p n r. Inr ()),
      createArgoApplication = (\<lambda>u t p a n r sp l. Inr ())\<rparr>"

text \<open>Every poll fetch rejects.\<close>

definition svc_fetch_fails :: ArgoService where
  "svc_fetch_fails =
     svc_ok\<lparr>getArgoAppData :=
              (\<lambda>n u i r t. Inl \<lparr>e_status = JNum 502, e_message = JStr ''bad gateway''\<rparr>)\<rparr>"

text \<open>Every poll fetch still shows the application.\<close>

definition svc_pending :: ArgoService where
  "svc_pending = svc_ok\<lparr>getArgoAppData := (\<lambda>n u i r t. Inr (Obj [''metadata'', ''spec'']))\<rparr>"

text \<open>The application is there on the first two polls and gone on the third.\<close>

definition svc_gone_third :: ArgoService where
  "svc_gone_third =
     svc_ok\<lparr>getArgoAppData :=
              (\<lambda>n u i r t. if n < 2 then Inr (Obj [''metadata'']) else Inr (Obj []))\<rparr>"

text \<open>\<open>deleteApp\<close> resolves to \<open>false\<close>; the polls are those of the client named.\<close>

definition svc_rejected_pending :: ArgoService where
  "svc_rejected_pending = svc_pending\<lparr>deleteApp := (\<lambda>u a t. Inr (JBool False))\<rparr>"

definition svc_rejected_gone :: ArgoService where
  "svc_rejected_gone = svc_ok\<lparr>deleteApp := (\<lambda>u a t. Inr (JBool False))\<rparr>"


text \<open>\<open>deleteApp\<close> rejects with \<open>{message: "app not found"}\<close>.\<close>

definition svc_not_found :: ArgoService where
  "svc_not_found =
     svc_pending\<lparr>deleteApp :=
                   (\<lambda>u a t. Inl \<lparr>e_status = JNum 404, e_message = JStr ''app not found''\<rparr>)\<rparr>"


text \<open>\<open>createArgoProject\<close> rejects with a status that is no HTTP status code.\<close>

definition svc_project_fails_1000 :: ArgoService where
  "svc_project_fails_1000 =
     svc_ok\<lparr>createArgoProject :=
              (\<lambda>u t p n r. Inl \<lparr>e_status = JNum 1000, e_message = JStr ''quota''\<rparr>)\<rparr>"

text \<open>An HTTP layer that writes the integer statuses from 100 to 999 and no other.\<close>

definition accepts_codes :: "jsval \<Rightarrow> bool" where
  "accepts_codes c = (case c of JNum n \<Rightarrow> 100 \<le> n \<and> n \<le> 999 | _ \<Rightarrow> False)"

definition body_prod :: create_body where
  "body_prod =
     \<lparr>clusterName = JStr ''prod'', namespace = JStr ''ns'', projectName = JStr ''proj'',
      appName = JStr ''app'', labelValue = JStr ''lbl'', sourceRepo = JStr ''repo'',
      sourcePath = JStr ''path''\<rparr>"

section \<open>The polling loop\<close>

text \<open>
  The loop unfolds one attempt at a time, according to what the fetch shows. A fetch
  that rejects and a fetch that resolves to a primitive both end in the \<open>catch\<close>, whose
  test \<open>attempts === argoWaitCycles\<close> is false inside the loop.
\<close>

declare poll_loop.simps [simp del]

lemma poll_loop_done: "\<not> int a < w \<Longrightarrow> poll_loop w svc m app tok a s = s"
  by (simp add: poll_loop.simps)

lemma poll_loop_gone:
  "int a < w \<Longrightarrow> lacks_metadata (fetch svc m app tok a) \<Longrightarrow>
   poll_loop w svc m app tok a s =
     (note_call (Call_getArgoAppData (url m) (name m) (ByName app) tok) s)
       \<lparr>isAppPendingDelete := False,
        argoDeleteAppResp :=
          \<lparr>status = ''success'', message = ''application is deleted successfully''\<rparr>\<rparr>"
  by (subst poll_loop.simps)
     (auto simp: lacks_metadata_def fetch_def Let_def split: sum.splits app_data.splits)

lemma poll_loop_present:
  "int a < w \<Longrightarrow> contains_metadata (fetch svc m app tok a) \<Longrightarrow>
   poll_loop w svc m app tok a s =
     poll_loop w svc m app tok (Suc a)
       (note_call (Call_timer 5000)
          ((note_call (Call_getArgoAppData (url m) (name m) (ByName app) tok) s)
             \<lparr>isAppPendingDelete := True\<rparr>))"
  by (subst poll_loop.simps)
     (auto simp: contains_metadata_def fetch_def Let_def split: sum.splits app_data.splits)

lemma poll_loop_error:
  "int a < w \<Longrightarrow> \<not> lacks_metadata (fetch svc m app tok a) \<Longrightarrow>
   \<not> contains_metadata (fetch svc m app tok a) \<Longrightarrow>
   poll_loop w svc m app tok a s =
     poll_loop w svc m app tok (Suc a)
       (note_call (Call_getArgoAppData (url m) (name m) (ByName app) tok) s)"
  by (subst poll_loop.simps)
     (auto simp: lacks_metadata_def contains_metadata_def fetch_def Let_def poll_catch_def
           split: sum.splits app_data.splits)

lemma poll_loop_keeps:
  "countinueToDeleteProject (poll_loop w svc m app tok a s) = countinueToDeleteProject s \<and>
   isAppexist (poll_loop w svc m app tok a s) = isAppexist s \<and>
   argoDeleteProjectResp (poll_loop w svc m app tok a s) = argoDeleteProjectResp s \<and>
   filter is_deleteProject (calls (poll_loop w svc m app tok a s)) =
     filter is_deleteProject (calls s)"
proof (induction "nat (w - int a)" arbitrary: a s)
  case 0
  then have "\<not> int a < w" by simp
  then show ?case by (simp add: poll_loop_done)
next
  case (Suc n)
  then have lt: "int a < w" and n: "n = nat (w - int (Suc a))" by auto
  consider (gone) "lacks_metadata (fetch svc m app tok a)"
    | (present) "contains_metadata (fetch svc m app tok a)"
    | (error) "\<not> lacks_metadata (fetch svc m app tok a)" "\<not> contains_metadata (fetch svc m app tok a)"
    by blast
  then show ?case
  proof cases
    case gone
    then show ?thesis using lt by (simp add: poll_loop_gone note_call_def)
  next
    case present
    then show ?thesis using lt Suc.hyps(1)[OF n] by (simp add: poll_loop_present note_call_def)
  next
    case error
    then show ?thesis using lt Suc.hyps(1)[OF n] by (simp add: poll_loop_error note_call_def)
  qed
qed

text \<open>When no fetch within the budget shows the application gone, the loop runs to its bound.\<close>

lemma poll_loop_exhausted:
  assumes "\<forall>i. a \<le> i \<and> int i < w \<longrightarrow> \<not> lacks_metadata (fetch svc m app tok i)"
  shows "argoDeleteAppResp (poll_loop w svc m app tok a s) = argoDeleteAppResp s \<and>
         isAppPendingDelete (poll_loop w svc m app tok a s) =
           (isAppPendingDelete s \<or> (\<exists>i. a \<le> i \<and> int i < w \<and> contains_metadata (fetch svc m app tok i))) \<and>
         length (filter is_getArgoAppData (calls (poll_loop w svc m app tok a s))) =
           length (filter is_getArgoAppData (calls s)) + nat (w - int a)"
  using assms
proof (induction "nat (w - int a)" arbitrary: a s)
  case 0
  then have "\<not> int a < w" by simp
  then show ?case by (auto simp add: poll_loop_done)
next
  case (Suc n)
  then have lt: "int a < w" and n: "n = nat (w - int (Suc a))" by auto
  have nl: "\<not> lacks_metadata (fetch svc m app tok a)" using Suc.prems lt by simp
  have rest: "\<forall>i. Suc a \<le> i \<and> int i < w \<longrightarrow> \<not> lacks_metadata (fetch svc m app tok i)"
    using Suc.prems by simp
  have cnt: "Suc (nat (w - int (Suc a))) = nat (w - int a)" using lt by simp
  have ex: "(\<exists>i. a \<le> i \<and> int i < w \<and> contains_metadata (fetch svc m app tok i)) =
            (contains_metadata (fetch svc m app tok a) \<or>
             (\<exists>i. Suc a \<le> i \<and> int i < w \<and> contains_metadata (fetch svc m app tok i)))"
    using lt by (metis Suc_leD Suc_le_eq le_eq_less_or_eq order_refl)
  show ?case
  proof (cases "contains_metadata (fetch svc m app tok a)")
    case True
    let ?s' = "note_call (Call_timer 5000)
          ((note_call (Call_getArgoAppData (url m) (name m) (ByName app) tok) s)
             \<lparr>isAppPendingDelete := True\<rparr>)"
    have step: "poll_loop w svc m app tok a s = poll_loop w svc m app tok (Suc a) ?s'"
      using lt True by (rule poll_loop_present)
    have s': "argoDeleteAppResp ?s' = argoDeleteAppResp s" "isAppPendingDelete ?s'"
      "length (filter is_getArgoAppData (calls ?s')) = Suc (length (filter is_getArgoAppData (calls s)))"
      by (simp_all add: note_call_def)
    show ?thesis
      unfolding step using Suc.hyps(1)[OF n rest, of ?s'] True cnt ex s' by simp
  next
    case False
    let ?s' = "note_call (Call_getArgoAppData (url m) (name m) (ByName app) tok) s"
    have step: "poll_loop w svc m app tok a s = poll_loop w svc m app tok (Suc a) ?s'"
      using lt nl False by (rule poll_loop_error)
    have s': "argoDeleteAppResp ?s' = argoDeleteAppResp s" "isAppPendingDelete ?s' = isAppPendingDelete s"
      "length (filter is_getArgoAppData (calls ?s')) = Suc (length (filter is_getArgoAppData (calls s)))"
      by (simp_all add: note_call_def)
    show ?thesis
      unfolding step using Suc.hyps(1)[OF n rest, of ?s'] False cnt ex s' by simp
  qed
qed

lemma poll_loop_first_gone:
  assumes "a \<le> k" "int k < w" "lacks_metadata (fetch svc m app tok k)"
    and "\<forall>i. a \<le> i \<and> i < k \<longrightarrow> \<not> lacks_metadata (fetch svc m app tok i)"
  shows "argoDeleteAppResp (poll_loop w svc m app tok a s) =
           \<lparr>status = ''success'', message = ''application is deleted successfully''\<rparr> \<and>
         isAppPendingDelete (poll_loop w svc m app tok a s) = False \<and>
         length (filter is_getArgoAppData (calls (poll_loop w svc m app tok a s))) =
           length (filter is_getArgoAppData (calls s)) + (k - a + 1) \<and>
         length (filter is_timer (calls (poll_loop w svc m app tok a s))) \<le>
           length (filter is_timer (calls s)) + (k - a)"
  using assms
proof (induction "k - a" arbitrary: a s)
  case 0
  then have "a = k" by simp
  then show ?case using 0 by (simp add: poll_loop_gone note_call_def)
next
  case (Suc d)
  then have ak: "a < k" and d: "d = k - Suc a" by auto
  then have lt: "int a < w" using Suc.prems by simp
  have nl: "\<not> lacks_metadata (fetch svc m app tok a)" using Suc.prems ak by simp
  have rest: "\<forall>i. Suc a \<le> i \<and> i < k \<longrightarrow> \<not> lacks_metadata (fetch svc m app tok i)"
    using Suc.prems by simp
  have le: "Suc a \<le> k" using ak by simp
  have cnt: "k - Suc a + 1 = k - a" using ak by simp
  note ih = Suc.hyps(1)[OF d le Suc.prems(2) Suc.prems(3) rest]
  show ?case
  proof (cases "contains_metadata (fetch svc m app tok a)")
    case True
    let ?s' = "note_call (Call_timer 5000)
          ((note_call (Call_getArgoAppData (url m) (name m) (ByName app) tok) s)
             \<lparr>isAppPendingDelete := True\<rparr>)"
    have step: "poll_loop w svc m app tok a s = poll_loop w svc m app tok (Suc a) ?s'"
      using lt True by (rule poll_loop_present)
    have s': "length (filter is_getArgoAppData (calls ?s')) = Suc (length (filter is_getArgoAppData (calls s)))"
      "length (filter is_timer (calls ?s')) = Suc (length (filter is_timer (calls s)))"
      by (simp_all add: note_call_def)
    show ?thesis
      unfolding step using ih[of ?s'] ak unfolding s' by auto
  next
    case False
    let ?s' = "note_call (Call_getArgoAppData (url m) (name m) (ByName app) tok) s"
    have step: "poll_loop w svc m app tok a s = poll_loop w svc m app tok (Suc a) ?s'"
      using lt nl False by (rule poll_loop_error)
    have s': "length (filter is_getArgoAppData (calls ?s')) = Suc (length (filter is_getArgoAppData (calls s)))"
      "length (filter is_timer (calls ?s')) = length (filter is_timer (calls s))"
      by (simp_all add: note_call_def)
    show ?thesis
      unfolding step using ih[of ?s'] ak unfolding s' by auto
  qed
qed

lemma first_gone:
  assumes "\<exists>i. int i < w \<and> lacks_metadata (f i)"
  shows "\<exists>k. int k < w \<and> lacks_metadata (f k) \<and> (\<forall>j. j < k \<longrightarrow> \<not> lacks_metadata (f j))"
proof -
  from assms obtain i where i: "int i < w" "lacks_metadata (f i)" by blast
  define k where "k = (LEAST j. lacks_metadata (f j))"
  have 1: "lacks_metadata (f k)" unfolding k_def using i(2) by (rule LeastI)
  have 2: "k \<le> i" unfolding k_def using i(2) by (rule Least_le)
  have 3: "\<forall>j. j < k \<longrightarrow> \<not> lacks_metadata (f j)" unfolding k_def using not_less_Least by blast
  from 1 2 3 i(1) show ?thesis by (intro exI[of _ k]) auto
qed

text \<open>The polling loop from its start, when some fetch within the budget shows the application gone.\<close>

lemma poll_from_start_gone:
  assumes "\<exists>i. int i < w \<and> lacks_metadata (fetch svc m app tok i)"
  shows "argoDeleteAppResp (poll_loop w svc m app tok 0 s) =
           \<lparr>status = ''success'', message = ''application is deleted successfully''\<rparr> \<and>
         isAppPendingDelete (poll_loop w svc m app tok 0 s) = False \<and>
         length (filter is_getArgoAppData (calls (poll_loop w svc m app tok 0 s))) >
           length (filter is_getArgoAppData (calls s))"
proof -
  from first_gone[OF assms] obtain k where k: "int k < w" "lacks_metadata (fetch svc m app tok k)"
    "\<forall>j. j < k \<longrightarrow> \<not> lacks_metadata (fetch svc m app tok j)" by blast
  have "\<forall>i. 0 \<le> i \<and> i < k \<longrightarrow> \<not> lacks_metadata (fetch svc m app tok i)" using k(3) by simp
  from poll_loop_first_gone[OF _ k(1) k(2) this, of s] show ?thesis by simp
qed

lemma poll_from_start_exhausted:
  assumes "\<not> (\<exists>i. int i < w \<and> lacks_metadata (fetch svc m app tok i))"
  shows "argoDeleteAppResp (poll_loop w svc m app tok 0 s) = argoDeleteAppResp s \<and>
         isAppPendingDelete (poll_loop w svc m app tok 0 s) =
           (isAppPendingDelete s \<or> (\<exists>i. int i < w \<and> contains_metadata (fetch svc m app tok i))) \<and>
         length (filter is_getArgoAppData (calls (poll_loop w svc m app tok 0 s))) =
           length (filter is_getArgoAppData (calls s)) + nat w"
proof -
  have "\<forall>i. 0 \<le> i \<and> int i < w \<longrightarrow> \<not> lacks_metadata (fetch svc m app tok i)" using assms by simp
  from poll_loop_exhausted[OF this, of s] show ?thesis by simp
qed

text \<open>The loop makes a fetch exactly when its bound is positive.\<close>

lemma poll_from_start_fetches:
  "(filter is_getArgoAppData (calls (poll_loop w svc m app tok 0 s)) =
      filter is_getArgoAppData (calls s)) = (w \<le> 0)"
proof (cases "0 < w")
  case False
  then have "\<not> int 0 < w" by simp
  then show ?thesis using False by (simp add: poll_loop_done)
next
  case True
  have "length (filter is_getArgoAppData (calls (poll_loop w svc m app tok 0 s))) >
          length (filter is_getArgoAppData (calls s))"
  proof (cases "\<exists>i. int i < w \<and> lacks_metadata (fetch svc m app tok i)")
    case True
    from poll_from_start_gone[OF True, of s] show ?thesis by simp
  next
    case False
    from poll_from_start_exhausted[OF False, of s] \<open>0 < w\<close> show ?thesis by simp
  qed
  then have "filter is_getArgoAppData (calls (poll_loop w svc m app tok 0 s)) \<noteq>
               filter is_getArgoAppData (calls s)"
    by auto
  then show ?thesis using True by simp
qed

text \<open>
  The application outcome after the loop: \<open>success\<close> when a fetch within the budget
  shows the application gone, and otherwise what it was before the loop. The loop never
  writes \<open>'error getting argo app data'\<close>.
\<close>

lemma poll_from_start_resp:
  "argoDeleteAppResp (poll_loop w svc m app tok 0 s) =
     (if \<exists>i. int i < w \<and> lacks_metadata (fetch svc m app tok i)
      then \<lparr>status = ''success'', message = ''application is deleted successfully''\<rparr>
      else argoDeleteAppResp s)"
proof (cases "\<exists>i. int i < w \<and> lacks_metadata (fetch svc m app tok i)")
  case True
  from poll_from_start_gone[OF True, of s] True show ?thesis by simp
next
  case False
  have "argoDeleteAppResp (poll_loop w svc m app tok 0 s) = argoDeleteAppResp s"
    using poll_from_start_exhausted[OF False, of s] by simp
  then show ?thesis by (simp only: False if_False)
qed

section \<open>The steps around the loop\<close>

lemma resolveToken_calls:
  "resolveToken svc m = (r, cs) \<Longrightarrow> cs = [] \<or> cs = [Call_getArgoToken m]"
  by (auto simp: resolveToken_def split: option.splits if_splits)

lemma delete_applications_resolved:
  assumes "find (\<lambda>argoInstance. name argoInstance = n) (argoInstanceArray config) = Some m"
    and "resolveToken svc m = (Inr tok, cs)"
  shows "delete_applications config svc n app =
           (Sent (JNum 200)
              (DeleteBody
                 (argoDeleteAppResp (deleteOrchestrator (argoWaitCycles config) svc m app tok cs))
                 (argoDeleteProjectResp (deleteOrchestrator (argoWaitCycles config) svc m app tok cs))),
            calls (deleteOrchestrator (argoWaitCycles config) svc m app tok cs))"
  using assms by (simp add: delete_applications_def Let_def)

lemma contains_not_lacks: "contains_metadata r \<Longrightarrow> \<not> lacks_metadata r"
  by (auto simp: contains_metadata_def lacks_metadata_def split: sum.splits app_data.splits)

lemma resolveToken_filters:
  assumes "resolveToken svc m = (r, cs)"
  shows "filter is_getArgoAppData cs = []" "filter is_deleteProject cs = []"
    "filter is_timer cs = []" "filter is_createArgoApplication cs = []"
  using resolveToken_calls[OF assms] by auto

lemma deleteAppStep_fields:
  "calls (deleteAppStep svc m app tok (init_state cs)) = cs @ [Call_deleteApp (url m) app tok]"
  "isAppPendingDelete (deleteAppStep svc m app tok (init_state cs)) = False"
  "argoDeleteProjectResp (deleteAppStep svc m app tok (init_state cs)) = \<lparr>status = [], message = []\<rparr>"
  "isAppexist (deleteAppStep svc m app tok (init_state cs)) =
     (\<not> signals_absent (deleteApp svc (url m) app tok))"
  "countinueToDeleteProject (deleteAppStep svc m app tok (init_state cs)) =
     (deleteApp svc (url m) app tok \<noteq> Inr (JBool False))"
  by (auto simp: deleteAppStep_def init_state_def note_call_def signals_absent_def Let_def
           split: sum.splits jsval.splits)

lemma deleteAppStep_resp:
  "argoDeleteAppResp (deleteAppStep svc m app tok (init_state cs)) =
     (case deleteApp svc (url m) app tok of
        Inr v \<Rightarrow> if v = JBool False
                 then \<lparr>status = ''failed'', message = ''error with deleteing argo app''\<rparr>
                 else \<lparr>status = [], message = []\<rparr>
      | Inl e \<Rightarrow> (case e_message e of
                    JStr msg \<Rightarrow> \<lparr>status = ''failed'', message = msg\<rparr>
                  | _ \<Rightarrow> \<lparr>status = [], message = []\<rparr>))"
  by (auto simp: deleteAppStep_def init_state_def note_call_def Let_def
           split: sum.splits jsval.splits)

lemma projectStep_pending:
  assumes "isAppPendingDelete s" "isAppexist s"
  shows "projectStep svc m app tok s =
     s\<lparr>argoDeleteAppResp := \<lparr>status = ''failed'', message = ''application pending delete''\<rparr>,
       argoDeleteProjectResp :=
         \<lparr>status = ''failed'', message = ''skipping project deletion due to app deletion pending''\<rparr>\<rparr>"
  using assms by (simp add: projectStep_def)

lemma projectStep_blocked:
  assumes "\<not> (isAppPendingDelete s \<and> isAppexist s)" "\<not> countinueToDeleteProject s"
  shows "projectStep svc m app tok s =
     s\<lparr>argoDeleteProjectResp :=
         \<lparr>status = ''failed'', message = ''skipping project deletion due to erro deleting argo app''\<rparr>\<rparr>"
  using assms by (auto simp add: projectStep_def)

lemma projectStep_attempt:
  assumes "\<not> (isAppPendingDelete s \<and> isAppexist s)" "countinueToDeleteProject s"
  shows "argoDeleteAppResp (projectStep svc m app tok s) = argoDeleteAppResp s"
    "calls (projectStep svc m app tok s) = calls s @ [Call_deleteProject (url m) app tok]"
    "argoDeleteProjectResp (projectStep svc m app tok s) =
       (case deleteProject svc (url m) app tok of
          Inr u \<Rightarrow> \<lparr>status = ''success'', message = ''project is deleted successfully''\<rparr>
        | Inl e \<Rightarrow> (case e_message e of
                      JStr msg \<Rightarrow> \<lparr>status = ''failed'', message = msg\<rparr>
                    | _ \<Rightarrow> \<lparr>status = ''failed'', message = ''error with deleteing argo project''\<rparr>))"
  using assms
  by (auto simp: projectStep_def note_call_def Let_def split: sum.splits jsval.splits)

lemma projectStep_other_calls:
  "filter is_getArgoAppData (calls (projectStep svc m app tok s)) = filter is_getArgoAppData (calls s)"
  "filter is_timer (calls (projectStep svc m app tok s)) = filter is_timer (calls s)"
  by (auto simp: projectStep_def note_call_def Let_def split: sum.splits jsval.splits)

lemma projectStep_app_kept:
  "\<not> (isAppPendingDelete s \<and> isAppexist s) \<Longrightarrow>
   argoDeleteAppResp (projectStep svc m app tok s) = argoDeleteAppResp s"
  by (auto simp: projectStep_def note_call_def Let_def split: sum.splits jsval.splits)


lemma orchestrator_absent:
  assumes "signals_absent (deleteApp svc (url m) app tok)"
  shows "deleteOrchestrator w svc m app tok cs =
           projectStep svc m app tok (deleteAppStep svc m app tok (init_state cs))"
  using assms by (simp add: deleteOrchestrator_def Let_def deleteAppStep_fields)

lemma orchestrator_polls:
  assumes "\<not> signals_absent (deleteApp svc (url m) app tok)"
  shows "deleteOrchestrator w svc m app tok cs =
           projectStep svc m app tok
             (poll_loop w svc m app tok 0 (deleteAppStep svc m app tok (init_state cs)))"
  using assms by (simp add: deleteOrchestrator_def Let_def deleteAppStep_fields)


text \<open>
  When the HTTP layer refuses the status of a failed project creation, the request
  leaves through \<open>errorHandler\<close>, still without a call of \<open>createArgoApplication\<close>.
\<close>

lemma createArgo_project_failure_refused_status:
  assumes "find (\<lambda>argoInstance. JStr (name argoInstance) = clusterName b) (argoInstanceArray config) = Some m"
    and "resolveToken svc m = (Inr tok, cs)"
    and "createArgoProject svc (url m) tok (projectName b) (namespace b) (sourceRepo b) = Inl e"
    and "\<not> writes accepts (or_else (e_status e) (JNum 500))"
  shows "createArgo config accepts svc b =
           (InvalidStatus (or_else (e_status e) (JNum 500)),
            cs @ [Call_createArgoProject (url m) tok (projectName b) (namespace b) (sourceRepo b)])"
  using assms by (simp add: createArgo_def Let_def status_send_def)

lemma createArgo_refused_status_example:
  "createArgo cfg_prod accepts_codes svc_project_fails_1000 body_prod =
     (InvalidStatus (JNum 1000),
      [Call_createArgoProject ''https://argo.prod'' ''tok2'' (JStr ''proj'') (JStr ''ns'') (JStr ''repo'')])"
  by code_simp

lemma get_applications_number_example:
  "send_data accepts_codes (Prim (JNum 404)) = Sent (JNum 404) (StatusTextBody 404) \<and>
   send_data accepts_codes (Prim (JNum 7)) = InvalidStatus (JNum 7) \<and>
   send_data accepts_codes (Obj [''metadata'']) = Sent (JNum 200) (DataBody (Obj [''metadata'']))"
  by (simp add: send_data_def status_send_def writes_def accepts_codes_def)

section \<open>Properties\<close>

text \<open>
  C9. For an instance name that no instance of the directory has, the instance-scoped
  fetch by name, the fetch by selector, the create operation and the delete operation
  all answer status 500 with \<open>{status: 'failed', message: 'cannot find an argo instance
  to match this cluster'}\<close>, and none of them makes a call to the ArgoCD client: no
  token is resolved and no API call is made.
\<close>

theorem unknown_instance_not_found:
  assumes "n \<notin> name ` set (argoInstanceArray config)"
  shows "get_applications_name config accepts svc n app = (instanceNotFound, []) \<and>
         get_applications_selector config accepts svc n sel = (instanceNotFound, []) \<and>
         createArgo config accepts svc (b\<lparr>clusterName := JStr n\<rparr>) = (instanceNotFound, []) \<and>
         delete_applications config svc n app = (instanceNotFound, []) \<and>
         instanceNotFound =
           Sent (JNum 500)
             (ErrorBody (JStr ''failed'')
                (JStr ''cannot find an argo instance to match this cluster''))"
proof -
  have 1: "find (\<lambda>argoInstance. name argoInstance = n) (argoInstanceArray config) = None"
    using assms by (auto simp: find_None_iff)
  have 2: "find (\<lambda>argoInstance. JStr (name argoInstance) = clusterName (b\<lparr>clusterName := JStr n\<rparr>))
             (argoInstanceArray config) = None"
    using assms by (auto simp: find_None_iff)
  show ?thesis
    using 1 2
    by (simp add: get_applications_name_def get_applications_selector_def get_applications_def
        createArgo_def delete_applications_def instanceNotFound_def)
qed

theorem unknown_instance_not_found_witness:
  "''staging'' \<notin> name ` set (argoInstanceArray cfg_prod) \<and>
   get_applications_name cfg_prod accepts_codes svc_ok ''staging'' ''app'' = (instanceNotFound, []) \<and>
   get_applications_selector cfg_prod accepts_codes svc_ok ''staging'' ''team=a'' = (instanceNotFound, []) \<and>
   createArgo cfg_prod accepts_codes svc_ok (body_prod\<lparr>clusterName := JStr ''staging''\<rparr>) = (instanceNotFound, []) \<and>
   delete_applications cfg_prod svc_ok ''staging'' ''app'' = (instanceNotFound, [])"
proof -
  have h: "''staging'' \<notin> name ` set (argoInstanceArray cfg_prod)"
    by (simp add: argoInstanceArray_def cfg_prod_def prod_def)
  show ?thesis
    using h unknown_instance_not_found[OF h, of accepts_codes svc_ok "''app''" "''team=a''" body_prod]
    by simp
qed



text \<open>
  C1. With the default five attempts and a client whose every fetch rejects, the fetch
  of the final attempt (index 4) rejects too; the application outcome is not \<open>failed\<close>
  with \<open>'error getting argo app data'\<close>: it stays \<open>{status: '', message: ''}\<close>, as the
  handler initialised it, and the project is deleted. The test
  \<open>attempts === argoWaitCycles\<close> of the \<open>catch\<close> cannot hold under the loop condition
  \<open>attempts < argoWaitCycles\<close>.
\<close>

theorem final_fetch_error_leaves_app_outcome_unset:
  "fetch svc_fetch_fails prod ''app'' ''tok2'' 4 =
     Inl \<lparr>e_status = JNum 502, e_message = JStr ''bad gateway''\<rparr> \<and>
   argoWaitCycles cfg_prod = 5 \<and>
   delete_applications cfg_prod svc_fetch_fails ''prod'' ''app'' =
     (Sent (JNum 200)
        (DeleteBody \<lparr>status = [], message = []\<rparr>
           \<lparr>status = ''success'', message = ''project is deleted successfully''\<rparr>),
      [Call_deleteApp ''https://argo.prod'' ''app'' ''tok2'',
       Call_getArgoAppData ''https://argo.prod'' ''prod'' (ByName ''app'') ''tok2'',
       Call_getArgoAppData ''https://argo.prod'' ''prod'' (ByName ''app'') ''tok2'',
       Call_getArgoAppData ''https://argo.prod'' ''prod'' (ByName ''app'') ''tok2'',
       Call_getArgoAppData ''https://argo.prod'' ''prod'' (ByName ''app'') ''tok2'',
       Call_getArgoAppData ''https://argo.prod'' ''prod'' (ByName ''app'') ''tok2'',
       Call_deleteProject ''https://argo.prod'' ''app'' ''tok2''])"
  by code_simp




text \<open>
  C3, as the code has it. The loop is guarded by \<open>isAppexist\<close> alone: a poll fetch is
  made exactly when the client did not signal that the application does not exist
  (\<open>deleteApp\<close> did not reject with an error whose message is a string) and
  \<open>waitCycles\<close> is positive. So no fetch follows a "not found" rejection, while fetches
  do follow a \<open>deleteApp\<close> that resolves to \<open>false\<close>.
\<close>

theorem polling_entered_unless_app_absent:
  assumes "find (\<lambda>argoInstance. name argoInstance = n) (argoInstanceArray config) = Some m"
    and "resolveToken svc m = (Inr tok, cs)"
  shows "(filter is_getArgoAppData (snd (delete_applications config svc n app)) \<noteq> []) =
           (\<not> signals_absent (deleteApp svc (url m) app tok) \<and> 0 < argoWaitCycles config)"
proof (cases "signals_absent (deleteApp svc (url m) app tok)")
  case True
  show ?thesis
    unfolding delete_applications_resolved[OF assms(1,2)] orchestrator_absent[OF True]
    using True resolveToken_filters(1)[OF assms(2)]
    by (simp add: projectStep_other_calls deleteAppStep_fields)
next
  case False
  let ?s1 = "deleteAppStep svc m app tok (init_state cs)"
  have base: "filter is_getArgoAppData (calls ?s1) = []"
    using resolveToken_filters(1)[OF assms(2)] by (simp add: deleteAppStep_fields)
  show ?thesis
    unfolding delete_applications_resolved[OF assms(1,2)] orchestrator_polls[OF False]
    using False poll_from_start_fetches[of "argoWaitCycles config" svc m app tok ?s1] base
    by (auto simp add: projectStep_other_calls)
qed

theorem polling_entered_unless_app_absent_witness:
  "find (\<lambda>argoInstance. name argoInstance = ''prod'') (argoInstanceArray cfg_prod) = Some prod \<and>
   resolveToken svc_not_found prod = (Inr ''tok2'', []) \<and>
   signals_absent (deleteApp svc_not_found (url prod) ''app'' ''tok2'') \<and>
   filter is_getArgoAppData (snd (delete_applications cfg_prod svc_not_found ''prod'' ''app'')) = [] \<and>
   resolveToken svc_rejected_gone prod = (Inr ''tok2'', []) \<and>
   \<not> signals_absent (deleteApp svc_rejected_gone (url prod) ''app'' ''tok2'') \<and>
   0 < argoWaitCycles cfg_prod \<and>
   filter is_getArgoAppData (snd (delete_applications cfg_prod svc_rejected_gone ''prod'' ''app'')) \<noteq> []"
proof -
  have h1: "find (\<lambda>argoInstance. name argoInstance = ''prod'') (argoInstanceArray cfg_prod) = Some prod"
    by (simp add: argoInstanceArray_def cfg_prod_def prod_def)
  have h2: "resolveToken svc_not_found prod = (Inr ''tok2'', [])"
    by (simp add: resolveToken_def prod_def)
  have h3: "signals_absent (deleteApp svc_not_found (url prod) ''app'' ''tok2'')"
    by (simp add: svc_not_found_def signals_absent_def)
  have h4: "resolveToken svc_rejected_gone prod = (Inr ''tok2'', [])"
    by (simp add: resolveToken_def prod_def)
  have h5: "\<not> signals_absent (deleteApp svc_rejected_gone (url prod) ''app'' ''tok2'')"
    by (simp add: svc_rejected_gone_def signals_absent_def)
  have h6: "0 < argoWaitCycles cfg_prod"
    by (simp add: argoWaitCycles_def cfg_prod_def)
  show ?thesis
    using h1 h2 h3 h4 h5 h6
      polling_entered_unless_app_absent[OF h1 h2, of "''app''"]
      polling_entered_unless_app_absent[OF h1 h4, of "''app''"]
    by simp
qed

text \<open>
  C3 as worded, that no poll fetch is made when \<open>deleteApp\<close> resolves to \<open>false\<close>,
  fails: with the default configuration and an application that stays present, five
  fetches follow the rejected deletion.
\<close>

theorem rejected_delete_still_polls:
  "deleteApp svc_rejected_pending (url prod) ''app'' ''tok2'' = Inr (JBool False) \<and>
   length (filter is_getArgoAppData
             (snd (delete_applications cfg_prod svc_rejected_pending ''prod'' ''app''))) = 5"
  by code_simp

text \<open>
  C4. When polling runs (the client did not signal the application absent and
  \<open>waitCycles\<close> is at least 1) and every fetch within the budget resolves to an object
  with \<open>metadata\<close>, the application outcome is \<open>failed\<close>, \<open>'application pending delete'\<close>,
  the project outcome is \<open>failed\<close>, \<open>'skipping project deletion due to app deletion
  pending'\<close>, \<open>deleteProject\<close> is not called, and \<open>waitCycles\<close> fetches were made.
\<close>

theorem exhausted_polling_marks_pending:
  assumes "find (\<lambda>argoInstance. name argoInstance = n) (argoInstanceArray config) = Some m"
    and "resolveToken svc m = (Inr tok, cs)"
    and "\<not> signals_absent (deleteApp svc (url m) app tok)"
    and "0 < argoWaitCycles config"
    and "\<forall>i. int i < argoWaitCycles config \<longrightarrow> contains_metadata (fetch svc m app tok i)"
  shows "fst (delete_applications config svc n app) =
           Sent (JNum 200)
             (DeleteBody \<lparr>status = ''failed'', message = ''application pending delete''\<rparr>
                \<lparr>status = ''failed'',
                 message = ''skipping project deletion due to app deletion pending''\<rparr>) \<and>
         filter is_deleteProject (snd (delete_applications config svc n app)) = [] \<and>
         length (filter is_getArgoAppData (snd (delete_applications config svc n app))) =
           nat (argoWaitCycles config)"
proof -
  let ?w = "argoWaitCycles config"
  let ?s1 = "deleteAppStep svc m app tok (init_state cs)"
  let ?s2 = "poll_loop ?w svc m app tok 0 ?s1"
  have orch: "deleteOrchestrator ?w svc m app tok cs = projectStep svc m app tok ?s2"
    using assms(3) by (rule orchestrator_polls)
  have none_gone: "\<not> (\<exists>i. int i < ?w \<and> lacks_metadata (fetch svc m app tok i))"
    using assms(5) contains_not_lacks by blast
  have seen: "\<exists>i. int i < ?w \<and> contains_metadata (fetch svc m app tok i)"
    using assms(4,5) by (intro exI[of _ 0]) simp
  note ex = poll_from_start_exhausted[OF none_gone, of ?s1]
  note keep = poll_loop_keeps[of ?w svc m app tok 0 ?s1]
  have pend: "isAppPendingDelete ?s2" using ex seen by simp
  have exist: "isAppexist ?s2" using keep assms(3) by (simp add: deleteAppStep_fields)
  have nodel: "filter is_deleteProject (calls ?s2) = []"
    using keep resolveToken_filters(2)[OF assms(2)] by (simp add: deleteAppStep_fields)
  have cnt: "length (filter is_getArgoAppData (calls ?s2)) = nat ?w"
    using ex resolveToken_filters(1)[OF assms(2)] by (simp add: deleteAppStep_fields)
  show ?thesis
    unfolding delete_applications_resolved[OF assms(1,2)] orch projectStep_pending[OF pend exist]
    using nodel cnt by simp
qed

theorem exhausted_polling_marks_pending_witness:
  "find (\<lambda>argoInstance. name argoInstance = ''prod'') (argoInstanceArray cfg_prod) = Some prod \<and>
   resolveToken svc_pending prod = (Inr ''tok2'', []) \<and>
   \<not> signals_absent (deleteApp svc_pending (url prod) ''app'' ''tok2'') \<and>
   0 < argoWaitCycles cfg_prod \<and>
   fst (delete_applications cfg_prod svc_pending ''prod'' ''app'') =
     Sent (JNum 200)
       (DeleteBody \<lparr>status = ''failed'', message = ''application pending delete''\<rparr>
          \<lparr>status = ''failed'',
           message = ''skipping project deletion due to app deletion pending''\<rparr>) \<and>
   filter is_deleteProject (snd (delete_applications cfg_prod svc_pending ''prod'' ''app'')) = [] \<and>
   length (filter is_getArgoAppData (snd (delete_applications cfg_prod svc_pending ''prod'' ''app''))) = 5"
proof -
  have h1: "find (\<lambda>argoInstance. name argoInstance = ''prod'') (argoInstanceArray cfg_prod) = Some prod"
    by (simp add: argoInstanceArray_def cfg_prod_def prod_def)
  have h2: "resolveToken svc_pending prod = (Inr ''tok2'', [])"
    by (simp add: resolveToken_def prod_def)
  have h3: "\<not> signals_absent (deleteApp svc_pending (url prod) ''app'' ''tok2'')"
    by (simp add: svc_pending_def svc_ok_def signals_absent_def)
  have h4: "0 < argoWaitCycles cfg_prod"
    by (simp add: argoWaitCycles_def cfg_prod_def)
  have h5: "\<forall>i. int i < argoWaitCycles cfg_prod \<longrightarrow> contains_metadata (fetch svc_pending prod ''app'' ''tok2'' i)"
    by (simp add: fetch_def svc_pending_def contains_metadata_def)
  have w: "nat (argoWaitCycles cfg_prod) = 5"
    by (simp add: argoWaitCycles_def cfg_prod_def)
  show ?thesis
    using h1 h2 h3 h4 h5 exhausted_polling_marks_pending[OF h1 h2 h3 h4 h5] w by simp
qed




text \<open>
  C6. When \<open>deleteApp\<close> rejects with an error whose message is a string, the
  application outcome is \<open>failed\<close> with that message, no poll is made, \<open>deleteProject\<close> is
  called next, and when it resolves the project outcome is \<open>success\<close>.
\<close>

theorem absent_app_still_deletes_project:
  assumes "find (\<lambda>argoInstance. name argoInstance = n) (argoInstanceArray config) = Some m"
    and "resolveToken svc m = (Inr tok, cs)"
    and "deleteApp svc (url m) app tok = Inl e"
    and "e_message e = JStr msg"
  shows "snd (delete_applications config svc n app) =
           cs @ [Call_deleteApp (url m) app tok, Call_deleteProject (url m) app tok] \<and>
         (\<exists>p. fst (delete_applications config svc n app) =
                Sent (JNum 200) (DeleteBody \<lparr>status = ''failed'', message = msg\<rparr> p)) \<and>
         (deleteProject svc (url m) app tok = Inr () \<longrightarrow>
            fst (delete_applications config svc n app) =
              Sent (JNum 200)
                (DeleteBody \<lparr>status = ''failed'', message = msg\<rparr>
                   \<lparr>status = ''success'', message = ''project is deleted successfully''\<rparr>))"
proof -
  let ?s1 = "deleteAppStep svc m app tok (init_state cs)"
  have absent: "signals_absent (deleteApp svc (url m) app tok)"
    using assms(3,4) by (simp add: signals_absent_def)
  have orch: "deleteOrchestrator (argoWaitCycles config) svc m app tok cs =
                projectStep svc m app tok ?s1"
    using absent by (rule orchestrator_absent)
  have np: "\<not> (isAppPendingDelete ?s1 \<and> isAppexist ?s1)"
    by (simp add: deleteAppStep_fields)
  have co: "countinueToDeleteProject ?s1"
    using assms(3) by (simp add: deleteAppStep_fields)
  have app: "argoDeleteAppResp ?s1 = \<lparr>status = ''failed'', message = msg\<rparr>"
    using assms(3,4) by (simp add: deleteAppStep_resp)
  note ps = projectStep_attempt[OF np co, of svc m app tok]
  show ?thesis
    unfolding delete_applications_resolved[OF assms(1,2)] orch
    using ps app by (simp add: deleteAppStep_fields)
qed

theorem absent_app_still_deletes_project_witness:
  "find (\<lambda>argoInstance. name argoInstance = ''prod'') (argoInstanceArray cfg_prod) = Some prod \<and>
   resolveToken svc_not_found prod = (Inr ''tok2'', []) \<and>
   deleteApp svc_not_found (url prod) ''app'' ''tok2'' =
     Inl \<lparr>e_status = JNum 404, e_message = JStr ''app not found''\<rparr> \<and>
   snd (delete_applications cfg_prod svc_not_found ''prod'' ''app'') =
     [Call_deleteApp ''https://argo.prod'' ''app'' ''tok2'',
      Call_deleteProject ''https://argo.prod'' ''app'' ''tok2''] \<and>
   fst (delete_applications cfg_prod svc_not_found ''prod'' ''app'') =
     Sent (JNum 200)
       (DeleteBody \<lparr>status = ''failed'', message = ''app not found''\<rparr>
          \<lparr>status = ''success'', message = ''project is deleted successfully''\<rparr>)"
proof -
  have h1: "find (\<lambda>argoInstance. name argoInstance = ''prod'') (argoInstanceArray cfg_prod) = Some prod"
    by (simp add: argoInstanceArray_def cfg_prod_def prod_def)
  have h2: "resolveToken svc_not_found prod = (Inr ''tok2'', [])"
    by (simp add: resolveToken_def prod_def)
  have h3: "deleteApp svc_not_found (url prod) ''app'' ''tok2'' =
     Inl \<lparr>e_status = JNum 404, e_message = JStr ''app not found''\<rparr>"
    by (simp add: svc_not_found_def)
  have h4: "e_message \<lparr>e_status = JNum 404, e_message = JStr ''app not found''\<rparr> = JStr ''app not found''"
    by simp
  have h5: "deleteProject svc_not_found (url prod) ''app'' ''tok2'' = Inr ()"
    by (simp add: svc_not_found_def svc_pending_def svc_ok_def)
  show ?thesis
    using h1 h2 h3 h5 absent_app_still_deletes_project[OF h1 h2 h3 h4]
    by (simp add: prod_def)
qed

text \<open>
  C7. During polling, when the \<open>k\<close>-th fetch (\<open>1 \<le> k \<le> waitCycles\<close>) is the first to
  resolve to an object without \<open>metadata\<close>, the application outcome is \<open>success\<close>,
  \<open>'application is deleted successfully'\<close>, exactly \<open>k\<close> fetches were made and fewer than
  \<open>k\<close> delays: the loop stops at that fetch. An earlier such fetch would have stopped
  the loop before attempt \<open>k\<close>.
\<close>

theorem poll_stops_at_first_gone:
  assumes "find (\<lambda>argoInstance. name argoInstance = n) (argoInstanceArray config) = Some m"
    and "resolveToken svc m = (Inr tok, cs)"
    and "\<not> signals_absent (deleteApp svc (url m) app tok)"
    and "1 \<le> k" and "int k \<le> argoWaitCycles config"
    and "lacks_metadata (fetch svc m app tok (k - 1))"
    and "\<forall>j. j < k - 1 \<longrightarrow> \<not> lacks_metadata (fetch svc m app tok j)"
  shows "(\<exists>p. fst (delete_applications config svc n app) =
                Sent (JNum 200)
                  (DeleteBody
                     \<lparr>status = ''success'', message = ''application is deleted successfully''\<rparr> p)) \<and>
         length (filter is_getArgoAppData (snd (delete_applications config svc n app))) = k \<and>
         length (filter is_timer (snd (delete_applications config svc n app))) < k"
proof -
  let ?w = "argoWaitCycles config"
  let ?s1 = "deleteAppStep svc m app tok (init_state cs)"
  let ?s2 = "poll_loop ?w svc m app tok 0 ?s1"
  have orch: "deleteOrchestrator ?w svc m app tok cs = projectStep svc m app tok ?s2"
    using assms(3) by (rule orchestrator_polls)
  have lt: "int (k - 1) < ?w" using assms(4,5) by simp
  have before: "\<forall>i. 0 \<le> i \<and> i < k - 1 \<longrightarrow> \<not> lacks_metadata (fetch svc m app tok i)"
    using assms(7) by simp
  note g = poll_loop_first_gone[OF _ lt assms(6) before, of ?s1]
  have np: "\<not> (isAppPendingDelete ?s2 \<and> isAppexist ?s2)" using g by simp
  have app: "argoDeleteAppResp (projectStep svc m app tok ?s2) =
               \<lparr>status = ''success'', message = ''application is deleted successfully''\<rparr>"
    using projectStep_app_kept[OF np] g by simp
  have gets: "length (filter is_getArgoAppData (calls (projectStep svc m app tok ?s2))) = k"
    using g assms(4) resolveToken_filters(1)[OF assms(2)]
    by (simp add: projectStep_other_calls deleteAppStep_fields)
  have timers: "length (filter is_timer (calls (projectStep svc m app tok ?s2))) < k"
    using g assms(4) resolveToken_filters(3)[OF assms(2)]
    by (simp add: projectStep_other_calls deleteAppStep_fields) arith
  show ?thesis
    unfolding delete_applications_resolved[OF assms(1,2)] orch
    using app gets timers by simp
qed

theorem poll_stops_at_first_gone_witness:
  "find (\<lambda>argoInstance. name argoInstance = ''prod'') (argoInstanceArray cfg_prod) = Some prod \<and>
   resolveToken svc_gone_third prod = (Inr ''tok2'', []) \<and>
   \<not> signals_absent (deleteApp svc_gone_third (url prod) ''app'' ''tok2'') \<and>
   (1::nat) \<le> 3 \<and> int 3 \<le> argoWaitCycles cfg_prod \<and>
   lacks_metadata (fetch svc_gone_third prod ''app'' ''tok2'' (3 - 1)) \<and>
   \<not> lacks_metadata (fetch svc_gone_third prod ''app'' ''tok2'' 0) \<and>
   \<not> lacks_metadata (fetch svc_gone_third prod ''app'' ''tok2'' 1) \<and>
   (\<exists>p. fst (delete_applications cfg_prod svc_gone_third ''prod'' ''app'') =
          Sent (JNum 200)
            (DeleteBody
               \<lparr>status = ''success'', message = ''application is deleted successfully''\<rparr> p)) \<and>
   length (filter is_getArgoAppData (snd (delete_applications cfg_prod svc_gone_third ''prod'' ''app''))) = 3 \<and>
   length (filter is_timer (snd (delete_applications cfg_prod svc_gone_third ''prod'' ''app''))) < 3"
proof -
  have h1: "find (\<lambda>argoInstance. name argoInstance = ''prod'') (argoInstanceArray cfg_prod) = Some prod"
    by (simp add: argoInstanceArray_def cfg_prod_def prod_def)
  have h2: "resolveToken svc_gone_third prod = (Inr ''tok2'', [])"
    by (simp add: resolveToken_def prod_def)
  have h3: "\<not> signals_absent (deleteApp svc_gone_third (url prod) ''app'' ''tok2'')"
    by (simp add: svc_gone_third_def svc_ok_def signals_absent_def)
  have h4: "(1::nat) \<le> 3" by simp
  have h5: "int 3 \<le> argoWaitCycles cfg_prod"
    by (simp add: argoWaitCycles_def cfg_prod_def)
  have h6: "lacks_metadata (fetch svc_gone_third prod ''app'' ''tok2'' (3 - 1))"
    by (simp add: fetch_def svc_gone_third_def lacks_metadata_def)
  have h7: "\<forall>j. j < 3 - 1 \<longrightarrow> \<not> lacks_metadata (fetch svc_gone_third prod ''app'' ''tok2'' j)"
    by (simp add: fetch_def svc_gone_third_def lacks_metadata_def)
  show ?thesis
    using h1 h2 h3 h4 h5 h6 h7 poll_stops_at_first_gone[OF h1 h2 h3 h4 h5 h6 h7] by simp
qed

text \<open>
  C8. When \<open>deleteApp\<close> resolves to \<open>false\<close> and a fetch within the budget resolves to
  an object without \<open>metadata\<close>, the composite response has the application outcome
  \<open>success\<close>, \<open>'application is deleted successfully'\<close>, and the project outcome \<open>failed\<close>,
  \<open>'skipping project deletion due to erro deleting argo app'\<close>.
\<close>

theorem rejected_delete_then_gone:
  assumes "find (\<lambda>argoInstance. name argoInstance = n) (argoInstanceArray config) = Some m"
    and "resolveToken svc m = (Inr tok, cs)"
    and "deleteApp svc (url m) app tok = Inr (JBool False)"
    and "\<exists>i. int i < argoWaitCycles config \<and> lacks_metadata (fetch svc m app tok i)"
  shows "fst (delete_applications config svc n app) =
           Sent (JNum 200)
             (DeleteBody
                \<lparr>status = ''success'', message = ''application is deleted successfully''\<rparr>
                \<lparr>status = ''failed'',
                 message = ''skipping project deletion due to erro deleting argo app''\<rparr>)"
proof -
  let ?w = "argoWaitCycles config"
  let ?s1 = "deleteAppStep svc m app tok (init_state cs)"
  let ?s2 = "poll_loop ?w svc m app tok 0 ?s1"
  have na: "\<not> signals_absent (deleteApp svc (url m) app tok)"
    using assms(3) by (simp add: signals_absent_def)
  have orch: "deleteOrchestrator ?w svc m app tok cs = projectStep svc m app tok ?s2"
    using na by (rule orchestrator_polls)
  note g = poll_from_start_gone[OF assms(4), of ?s1]
  note keep = poll_loop_keeps[of ?w svc m app tok 0 ?s1]
  have np: "\<not> (isAppPendingDelete ?s2 \<and> isAppexist ?s2)" using g by simp
  have nc: "\<not> countinueToDeleteProject ?s2"
    using keep assms(3) by (simp add: deleteAppStep_fields)
  show ?thesis
    unfolding delete_applications_resolved[OF assms(1,2)] orch projectStep_blocked[OF np nc]
    using g by simp
qed

theorem rejected_delete_then_gone_witness:
  "find (\<lambda>argoInstance. name argoInstance = ''prod'') (argoInstanceArray cfg_prod) = Some prod \<and>
   resolveToken svc_rejected_gone prod = (Inr ''tok2'', []) \<and>
   deleteApp svc_rejected_gone (url prod) ''app'' ''tok2'' = Inr (JBool False) \<and>
   (\<exists>i. int i < argoWaitCycles cfg_prod \<and> lacks_metadata (fetch svc_rejected_gone prod ''app'' ''tok2'' i)) \<and>
   fst (delete_applications cfg_prod svc_rejected_gone ''prod'' ''app'') =
     Sent (JNum 200)
       (DeleteBody
          \<lparr>status = ''success'', message = ''application is deleted successfully''\<rparr>
          \<lparr>status = ''failed'',
           message = ''skipping project deletion due to erro deleting argo app''\<rparr>)"
proof -
  have h1: "find (\<lambda>argoInstance. name argoInstance = ''prod'') (argoInstanceArray cfg_prod) = Some prod"
    by (simp add: argoInstanceArray_def cfg_prod_def prod_def)
  have h2: "resolveToken svc_rejected_gone prod = (Inr ''tok2'', [])"
    by (simp add: resolveToken_def prod_def)
  have h3: "deleteApp svc_rejected_gone (url prod) ''app'' ''tok2'' = Inr (JBool False)"
    by (simp add: svc_rejected_gone_def)
  have h4: "\<exists>i. int i < argoWaitCycles cfg_prod \<and> lacks_metadata (fetch svc_rejected_gone prod ''app'' ''tok2'' i)"
    by (rule exI[of _ 0])
       (simp add: argoWaitCycles_def cfg_prod_def fetch_def svc_rejected_gone_def svc_ok_def lacks_metadata_def)
  show ?thesis
    using h1 h2 h3 h4 rejected_delete_then_gone[OF h1 h2 h3 h4] by simp
qed

end
